theory Spec2Isabelle
  imports Main
begin

section \<open>Registration screen: form values and character classes\<close>

text \<open>
  The development follows \<^verbatim>\<open>src/screens/RegistrationScreen.tsx\<close>. Strings are
  \<^typ>\<open>string\<close>, read as the bytes of the JavaScript string in generalised UTF-8: every
  character used by the two regular expressions and by \<^verbatim>\<open>encodeURIComponent\<close>'s
  unescaped set is ASCII, and a character outside ASCII is a run of bytes above 127 that
  belongs to no class. A surrogate pair is the four bytes of its code point; a surrogate
  without its partner, which a JavaScript string may hold, is the three bytes
  \<^verbatim>\<open>ED\<close>, \<^verbatim>\<open>A0..BF\<close>, \<^verbatim>\<open>80..BF\<close>, and nothing else begins with \<^verbatim>\<open>ED\<close> followed
  by a byte from \<^verbatim>\<open>A0\<close> on.
\<close>

record FormValues =
  surname :: string
  name :: string
  patronymic :: string
  email :: string
  programId :: string
  yearAdmission :: string
  group :: string

datatype field = Surname | Name | Patronymic | Email | ProgramId | YearAdmission | Group

fun field_value :: "FormValues \<Rightarrow> field \<Rightarrow> string" where
  "field_value v Surname = surname v"
| "field_value v Name = name v"
| "field_value v Patronymic = patronymic v"
| "field_value v Email = email v"
| "field_value v ProgramId = programId v"
| "field_value v YearAdmission = yearAdmission v"
| "field_value v Group = group v"

fun setIn :: "FormValues \<Rightarrow> field \<Rightarrow> string \<Rightarrow> FormValues" where
  "setIn v Surname t = v\<lparr>surname := t\<rparr>"
| "setIn v Name t = v\<lparr>name := t\<rparr>"
| "setIn v Patronymic t = v\<lparr>patronymic := t\<rparr>"
| "setIn v Email t = v\<lparr>email := t\<rparr>"
| "setIn v ProgramId t = v\<lparr>programId := t\<rparr>"
| "setIn v YearAdmission t = v\<lparr>yearAdmission := t\<rparr>"
| "setIn v Group t = v\<lparr>group := t\<rparr>"

text \<open>The \<^verbatim>\<open>initialValues\<close> of the form (lines 106-114): every field is the empty string.\<close>

definition initialValues :: FormValues where
  "initialValues = \<lparr>surname = [], name = [], patronymic = [], email = [],
     programId = [], yearAdmission = [], group = []\<rparr>"

definition alnum :: "char \<Rightarrow> bool" where
  "alnum c \<longleftrightarrow> c \<in> set (''ABCDEFGHIJKLMNOPQRSTUVWXYZ'' @ ''abcdefghijklmnopqrstuvwxyz''
     @ ''0123456789'')"

subsection \<open>The corporate pattern (lines 38-41)\<close>

text \<open>
  The character class \<^verbatim>\<open>[A-Za-z0-9._%+-]\<close> and the expression
  \<^verbatim>\<open>/^[A-Za-z0-9._%+-]+@edu\.hse\.ru$/\<close>. The class does not contain \<^verbatim>\<open>@\<close>, so the
  greedy \<^verbatim>\<open>+\<close> takes the longest prefix of class characters and no shorter prefix can
  be followed by \<^verbatim>\<open>@\<close>; without the \<^verbatim>\<open>m\<close> flag \<^verbatim>\<open>$\<close> is the end of the input.
\<close>

definition local_char :: "char \<Rightarrow> bool" where
  "local_char c \<longleftrightarrow> alnum c \<or> c \<in> set ''._%+-''"

definition corporate_email :: "string \<Rightarrow> bool" where
  "corporate_email s \<longleftrightarrow>
     takeWhile local_char s \<noteq> [] \<and> dropWhile local_char s = ''@edu.hse.ru''"

subsection \<open>The format rule of \<^verbatim>\<open>.email()\<close> (line 37)\<close>

text \<open>
  \<^verbatim>\<open>yup.string().email()\<close> tests the value against the library's expression for
  email addresses (yup 1.x, the one of the HTML standard):
  \<^verbatim>\<open>/^[a-zA-Z0-9.!#$%&'*+\/=?^_`{|}~-]+@LABEL(?:\.LABEL)*$/\<close> with \<^verbatim>\<open>LABEL\<close> being
  \<^verbatim>\<open>[a-zA-Z0-9](?:[a-zA-Z0-9-]{0,61}[a-zA-Z0-9])?\<close>: a non-empty local part, an
  \<^verbatim>\<open>@\<close>, and labels of 1 to 63 letters, digits and hyphens that begin and end with a
  letter or digit, separated by dots.
\<close>

definition atext :: "char \<Rightarrow> bool" where
  "atext c \<longleftrightarrow> alnum c \<or> c \<in> set (''.!#$%&*+/=?^_`{|}~-'' @ [CHR 0x27])"

definition email_label :: "string \<Rightarrow> bool" where
  "email_label l \<longleftrightarrow> l \<noteq> [] \<and> length l \<le> 63 \<and> alnum (hd l) \<and> alnum (last l)
     \<and> list_all (\<lambda>c. alnum c \<or> c = CHR ''-'') l"

fun split_on :: "char \<Rightarrow> string \<Rightarrow> string list" where
  "split_on d [] = [[]]"
| "split_on d (c # cs) =
     (if c = d then [] # split_on d cs
      else (case split_on d cs of [] \<Rightarrow> [[c]] | l # ls \<Rightarrow> (c # l) # ls))"

definition rEmail :: "string \<Rightarrow> bool" where
  "rEmail s \<longleftrightarrow>
     takeWhile atext s \<noteq> [] \<and>
     (case dropWhile atext s of
        [] \<Rightarrow> False
      | c # host \<Rightarrow> c = CHR ''@'' \<and> list_all email_label (split_on CHR ''.'' host))"

subsection \<open>\<^verbatim>\<open>encodeURIComponent\<close> and the request of the availability test (line 47)\<close>

text \<open>
  \<^verbatim>\<open>encodeURIComponent\<close> throws \<^verbatim>\<open>URIError\<close> when its argument holds a surrogate
  without its partner. Otherwise it leaves \<^verbatim>\<open>A-Z a-z 0-9 - _ . ! ~ * ' ( )\<close> as they
  are and writes every other character as \<^verbatim>\<open>%XX\<close> for each byte of its UTF-8
  encoding, with upper-case hexadecimal digits.
\<close>

datatype uri_error = URIError

fun unpaired_surrogate :: "string \<Rightarrow> bool" where
  "unpaired_surrogate (c # d # cs) =
     ((c = CHR 0xED \<and> (0xA0 :: nat) \<le> of_char d \<and> of_char d \<le> (0xBF :: nat))
      \<or> unpaired_surrogate (d # cs))"
| "unpaired_surrogate cs = False"

definition uriUnescaped :: "char \<Rightarrow> bool" where
  "uriUnescaped c \<longleftrightarrow> alnum c \<or> c \<in> set (''-_.!~*()'' @ [CHR 0x27])"

definition hex_digit :: "nat \<Rightarrow> char" where
  "hex_digit n = ''0123456789ABCDEF'' ! (n mod 16)"

definition percent :: "char \<Rightarrow> string" where
  "percent c = [CHR ''%'', hex_digit (of_char c div 16), hex_digit (of_char c mod 16)]"

fun percent_encode :: "string \<Rightarrow> string" where
  "percent_encode [] = []"
| "percent_encode (c # cs) =
     (if uriUnescaped c then [c] else percent c) @ percent_encode cs"

definition encodeURIComponent :: "string \<Rightarrow> uri_error + string" where
  "encodeURIComponent v =
     (if unpaired_surrogate v then Inl URIError else Inr (percent_encode v))"

text \<open>
  The template literal of line 47: the exception of the encoder leaves it, otherwise the
  encoded value follows the fixed prefix.
\<close>

definition check_email_url :: "string \<Rightarrow> uri_error + string" where
  "check_email_url v =
     (case encodeURIComponent v of
        Inl x \<Rightarrow> Inl x
      | Inr c \<Rightarrow> Inr (''/api/check-email?email='' @ c))"



section \<open>The validation schema (lines 31-57)\<close>

text \<open>
  The messages of the schema are Russian string literals; each is named after the rule
  that carries it: lines 32, 33, 36, 37, 40, 44, 54, 55 and 56 in this order.
\<close>

datatype msg =
    SurnameRequired | NameRequired | EmailRequired | EmailFormat | EmailNotCorporate
  | EmailTaken | ProgramRequired | YearRequired | GroupRequired

text \<open>
  What \<^verbatim>\<open>await api.get(url)\<close> gives back to the test function: a response whose
  \<^verbatim>\<open>data.available\<close> is read, or an exception (no connection, the 5000 ms timeout of
  the axios instance, an error status).
\<close>

datatype get_result = Resolved bool | Thrown

text \<open>
  A test either answers at once or suspends on a request; the suspended test carries the
  rest of its body, which runs on the result of the request.
\<close>

datatype verdict = Now bool | Await string "get_result \<Rightarrow> bool"

text \<open>
  The test function \<^verbatim>\<open>email-available\<close> (lines 45-52). The address of the request is
  built and the request is made inside the \<^verbatim>\<open>try\<close> block, and the \<^verbatim>\<open>catch\<close>
  returns \<^verbatim>\<open>false\<close>: when the encoder throws, the test answers \<^verbatim>\<open>false\<close> and no
  request is made; when the request throws, the test answers \<^verbatim>\<open>false\<close> as well.
\<close>

definition email_available :: "string \<Rightarrow> verdict" where
  "email_available v =
     (case check_email_url v of
        Inl x \<Rightarrow> Now False
      | Inr url \<Rightarrow>
          Await url (\<lambda>r. case r of Resolved available \<Rightarrow> available | Thrown \<Rightarrow> False))"

datatype rule =
    Required msg
  | EmailRule msg
  | Matches "string \<Rightarrow> bool" msg
  | Test msg "string \<Rightarrow> verdict"

definition registrationSchema :: "(field \<times> rule list) list" where
  "registrationSchema =
     [(Surname, [Required SurnameRequired]),
      (Name, [Required NameRequired]),
      (Email, [Required EmailRequired, EmailRule EmailFormat,
               Matches corporate_email EmailNotCorporate, Test EmailTaken email_available]),
      (ProgramId, [Required ProgramRequired]),
      (YearAdmission, [Required YearRequired]),
      (Group, [Required GroupRequired])]"

subsection \<open>How the schema is run\<close>

text \<open>
  The schema is run by Formik 2 and yup 1, which the screen imports; their part is written
  out here. The form library hands the values to the schema with every empty string replaced by
  \<^verbatim>\<open>undefined\<close>, and asks for all errors (\<^verbatim>\<open>abortEarly: false\<close>). For one field the
  schema library then works in two stages. A field marked \<^verbatim>\<open>required\<close> whose value is
  \<^verbatim>\<open>undefined\<close> fails at once with the message of \<^verbatim>\<open>required\<close>, and none of its
  tests is called. Otherwise every test of the field is called, one after the other and
  without waiting: a failing test does not stop the later ones. The errors of a field are
  collected as the tests finish, the synchronous ones first, and the form keeps the first
  error of each field. A field the schema does not mention (\<^verbatim>\<open>patronymic\<close>) is not
  validated.
\<close>

fun rule_verdict :: "rule \<Rightarrow> string \<Rightarrow> verdict" where
  "rule_verdict (Required m) v = Now (v \<noteq> [])"
| "rule_verdict (EmailRule m) v = Now (v = [] \<or> rEmail v)"
| "rule_verdict (Matches re m) v = Now (re v)"
| "rule_verdict (Test m f) v = f v"

fun rule_message :: "rule \<Rightarrow> msg" where
  "rule_message (Required m) = m"
| "rule_message (EmailRule m) = m"
| "rule_message (Matches re m) = m"
| "rule_message (Test m f) = m"

fun is_required :: "rule \<Rightarrow> bool" where
  "is_required (Required m) = True"
| "is_required r = False"

fun is_now :: "verdict \<Rightarrow> bool" where
  "is_now (Now b) = True"
| "is_now (Await url k) = False"

fun verdict_requests :: "verdict \<Rightarrow> string list" where
  "verdict_requests (Now b) = []"
| "verdict_requests (Await url k) = [url]"

fun settle :: "(string \<Rightarrow> get_result) \<Rightarrow> verdict \<Rightarrow> bool" where
  "settle api (Now b) = b"
| "settle api (Await url k) = k (api url)"

definition absent_required :: "rule list \<Rightarrow> string \<Rightarrow> bool" where
  "absent_required rs v \<longleftrightarrow> v = [] \<and> list_ex is_required rs"

definition field_requests :: "rule list \<Rightarrow> string \<Rightarrow> string list" where
  "field_requests rs v =
     (if absent_required rs v then []
      else concat (map (\<lambda>r. verdict_requests (rule_verdict r v)) rs))"

definition field_errors :: "(string \<Rightarrow> get_result) \<Rightarrow> rule list \<Rightarrow> string \<Rightarrow> msg list" where
  "field_errors api rs v =
     (if absent_required rs v then map rule_message (filter is_required rs)
      else
        map rule_message
          (filter (\<lambda>r. is_now (rule_verdict r v) \<and> \<not> settle api (rule_verdict r v)) rs)
        @ map rule_message
          (filter (\<lambda>r. \<not> is_now (rule_verdict r v) \<and> \<not> settle api (rule_verdict r v)) rs))"

text \<open>
  One validation pass over the form: the requests it sends when it starts, and the
  errors object it yields once every test has finished, as an association list in the
  order of the schema. \<open>api\<close> gives the result of each request.
\<close>

definition validate_requests :: "FormValues \<Rightarrow> string list" where
  "validate_requests v =
     concat (map (\<lambda>(f, rs). field_requests rs (field_value v f)) registrationSchema)"

definition validate_form :: "(string \<Rightarrow> get_result) \<Rightarrow> FormValues \<Rightarrow> (field \<times> msg) list" where
  "validate_form api v =
     concat (map (\<lambda>(f, rs). case field_errors api rs (field_value v f) of
                                [] \<Rightarrow> [] | m # ms \<Rightarrow> [(f, m)]) registrationSchema)"

definition field_error :: "(string \<Rightarrow> get_result) \<Rightarrow> FormValues \<Rightarrow> field \<Rightarrow> msg option" where
  "field_error api v f = map_of (validate_form api v) f"

text \<open>
  The form calls \<^verbatim>\<open>onSubmit\<close> when the errors object of the pass it ran for the
  submission has no key.
\<close>

definition isSubmittable :: "(string \<Rightarrow> get_result) \<Rightarrow> FormValues \<Rightarrow> bool" where
  "isSubmittable api v \<longleftrightarrow> validate_form api v = []"

section \<open>The screen as a state machine\<close>

text \<open>
  The error caught on line 85 and the expression \<^verbatim>\<open>error.response?.data?.message\<close>:
  each level may be missing.
\<close>

datatype error_data = ErrorData (message: "string option")

datatype error_response = ErrorResponse (data: "error_data option")

datatype caught = Caught (response: "error_response option")

definition server_message :: "caught \<Rightarrow> string option" where
  "server_message e = Option.bind (Option.bind (response e) data) message"

text \<open>
  The fallback literal of line 86, in UTF-8, and \<^verbatim>\<open>m || fallback\<close>: a missing message
  and the empty string are both falsy.
\<close>

definition serverErrorText :: string where
  "serverErrorText = map char_of
     [0xd0, 0x9e, 0xd1, 0x88, 0xd0, 0xb8, 0xd0, 0xb1, 0xd0, 0xba, 0xd0, 0xb0, 0x20, 0xd1, 0x81,
      0xd0, 0xb5, 0xd1, 0x80, 0xd0, 0xb2, 0xd0, 0xb5, 0xd1, 0x80, 0xd0, 0xb0 :: nat]"

definition or_else :: "string option \<Rightarrow> string \<Rightarrow> string" where
  "or_else m fallback = (case m of None \<Rightarrow> fallback | Some t \<Rightarrow> if t = [] then fallback else t)"

datatype post_result = Ack | Rejected caught

datatype alert = SuccessAlert | ErrorAlert string

datatype request = GET string | POST FormValues

fun is_POST :: "request \<Rightarrow> bool" where
  "is_POST (POST v) = True"
| "is_POST (GET url) = False"

datatype trigger = FieldEvent | SubmitAttempt

record validation_run =
  run_values :: FormValues
  run_trigger :: trigger

text \<open>
  The state of the screen: the values and errors the form holds, the \<^verbatim>\<open>loading\<close> flag
  (line 62), the validation passes and the calls of \<^verbatim>\<open>handleSubmit\<close> that are waiting
  for the network, and what has been sent and shown so far.
\<close>

record screen =
  formValues :: FormValues
  formErrors :: "(field \<times> msg) list"
  loading :: bool
  validating :: "validation_run list"
  posting :: nat
  sent :: "request list"
  alerts :: "alert list"

definition initialScreen :: screen where
  "initialScreen = \<lparr>formValues = initialValues, formErrors = [], loading = False, validating = [],
     posting = 0, sent = [], alerts = []\<rparr>"

text \<open>Starting a validation pass sends its requests and leaves the pass in flight.\<close>

definition validateForm :: "trigger \<Rightarrow> FormValues \<Rightarrow> screen \<Rightarrow> screen" where
  "validateForm t v s =
     s\<lparr>validating := validating s @ [\<lparr>run_values = v, run_trigger = t\<rparr>],
       sent := sent s @ map GET (validate_requests v)\<rparr>"

text \<open>
  \<^verbatim>\<open>handleSubmit\<close> (lines 76-90) up to its \<^verbatim>\<open>await\<close>, and from there to its end: the
  \<^verbatim>\<open>finally\<close> block runs after the \<^verbatim>\<open>try\<close> and after the \<^verbatim>\<open>catch\<close>.
\<close>

definition handleSubmit_call :: "FormValues \<Rightarrow> screen \<Rightarrow> screen" where
  "handleSubmit_call v s =
     s\<lparr>loading := True, sent := sent s @ [POST v], posting := Suc (posting s)\<rparr>"

definition handleSubmit_resume :: "post_result \<Rightarrow> screen \<Rightarrow> screen" where
  "handleSubmit_resume r s =
     (case r of
        Ack \<Rightarrow> s\<lparr>alerts := alerts s @ [SuccessAlert]\<rparr>
      | Rejected e \<Rightarrow>
          s\<lparr>alerts := alerts s @ [ErrorAlert (or_else (server_message e) serverErrorText)]\<rparr>)
     \<lparr>loading := False, posting := posting s - 1\<rparr>"

definition handleSubmit :: "post_result \<Rightarrow> FormValues \<Rightarrow> screen \<Rightarrow> screen" where
  "handleSubmit r v s = handleSubmit_resume r (handleSubmit_call v s)"

text \<open>
  The events of the screen. A change of text (\<^verbatim>\<open>handleChange\<close>) stores the value and
  starts a validation pass on the new values; a blur starts one on the current values.
  The button (lines 230-240) is disabled while \<^verbatim>\<open>loading\<close> holds; otherwise a press
  starts the pass of a submission. When a pass finishes, its errors replace those of the
  form, and the pass of a submission that found no error calls \<^verbatim>\<open>handleSubmit\<close> with the
  current values. The result of a request arrives with the event that finishes the pass.
\<close>

datatype event =
    ChangeText field string
  | Blur field
  | PressSubmit
  | ValidationSettled nat get_result
  | PostSettled post_result

fun step :: "screen \<Rightarrow> event \<Rightarrow> screen" where
  "step s (ChangeText f t) =
     validateForm FieldEvent (setIn (formValues s) f t) (s\<lparr>formValues := setIn (formValues s) f t\<rparr>)"
| "step s (Blur f) = validateForm FieldEvent (formValues s) s"
| "step s PressSubmit = (if loading s then s else validateForm SubmitAttempt (formValues s) s)"
| "step s (ValidationSettled i r) =
     (if i < length (validating s) then
        (let run = validating s ! i;
             errs = validate_form (\<lambda>url. r) (run_values run);
             s' = s\<lparr>validating := take i (validating s) @ drop (Suc i) (validating s),
                    formErrors := errs\<rparr>
         in if run_trigger run = SubmitAttempt \<and> errs = []
            then handleSubmit_call (formValues s') s' else s')
      else s)"
| "step s (PostSettled r) = (if posting s = 0 then s else handleSubmit_resume r s)"

definition run_events :: "screen \<Rightarrow> event list \<Rightarrow> screen" where
  "run_events s es = foldl step s es"

subsection \<open>Sample inputs\<close>

text \<open>A filled form, a server that reports every address free, and one that cannot be reached.\<close>

definition ivanov :: FormValues where
  "ivanov = \<lparr>surname = ''Ivanov'', name = ''Ivan'', patronymic = [],
     email = ''ivanov@edu.hse.ru'', programId = ''1'', yearAdmission = ''2024'', group = ''3''\<rparr>"

definition available :: "string \<Rightarrow> get_result" where
  "available url = Resolved True"

definition unreachable :: "string \<Rightarrow> get_result" where
  "unreachable url = Thrown"

text \<open>
  The screen holding the filled form, the same screen after the button was pressed, a
  rejection of the registration whose payload carries the empty string as its message,
  and an email value that begins with the surrogate \<^verbatim>\<open>U+D800\<close> alone.
\<close>

definition ivanovScreen :: screen where
  "ivanovScreen = initialScreen\<lparr>formValues := ivanov\<rparr>"

definition pressedScreen :: screen where
  "pressedScreen = step ivanovScreen PressSubmit"

definition emptyMessage :: caught where
  "emptyMessage = Caught (Some (ErrorResponse (Some (ErrorData (Some [])))))"


definition loneSurrogate :: string where
  "loneSurrogate = [CHR 0xED, CHR 0xA0, CHR 0x80] @ ''@edu.hse.ru''"

definition duplicateEmail :: caught where
  "duplicateEmail = Caught (Some (ErrorResponse (Some (ErrorData (Some ''Email already registered'')))))"

definition networkError :: caught where
  "networkError = Caught None"

section \<open>Facts about the patterns and the schema\<close>

lemma at_not_local: "\<not> local_char CHR ''@''"
  by (simp add: local_char_def alnum_def)

lemma corporate_email_iff:
  "corporate_email s \<longleftrightarrow> (\<exists>l. l \<noteq> [] \<and> list_all local_char l \<and> s = l @ ''@edu.hse.ru'')"
proof
  assume c: "corporate_email s"
  have "s = takeWhile local_char s @ dropWhile local_char s" by simp
  with c have "s = takeWhile local_char s @ ''@edu.hse.ru''"
    by (simp add: corporate_email_def)
  moreover have "list_all local_char (takeWhile local_char s)"
    by (simp add: list_all_iff) (meson set_takeWhileD)
  ultimately show "\<exists>l. l \<noteq> [] \<and> list_all local_char l \<and> s = l @ ''@edu.hse.ru''"
    using c unfolding corporate_email_def by blast
next
  assume "\<exists>l. l \<noteq> [] \<and> list_all local_char l \<and> s = l @ ''@edu.hse.ru''"
  then obtain l where l: "l \<noteq> []" "list_all local_char l" "s = l @ ''@edu.hse.ru''" by blast
  from l(2) have all: "\<forall>c\<in>set l. local_char c" by (simp add: list_all_iff)
  have "takeWhile local_char s = l"
    using all l(3) at_not_local by (simp add: takeWhile_append2)
  moreover have "dropWhile local_char s = ''@edu.hse.ru''"
    using all l(3) at_not_local by (simp add: dropWhile_append2)
  ultimately show "corporate_email s" using l(1) by (simp add: corporate_email_def)
qed

lemma required_errors:
  "field_errors api [Required m] v = (if v = [] then [m] else [])"
  by (simp add: field_errors_def absent_required_def)

lemma email_errors:
  "field_errors api [Required EmailRequired, EmailRule EmailFormat,
      Matches corporate_email EmailNotCorporate, Test EmailTaken email_available] e =
   (if e = [] then [EmailRequired]
    else (if rEmail e then [] else [EmailFormat])
       @ (if corporate_email e then [] else [EmailNotCorporate])
       @ (if settle api (email_available e) then [] else [EmailTaken]))"
  by (cases "email_available e")
     (auto simp: field_errors_def absent_required_def)

lemma email_requests:
  "field_requests [Required EmailRequired, EmailRule EmailFormat,
      Matches corporate_email EmailNotCorporate, Test EmailTaken email_available] e =
   (if e = [] then [] else verdict_requests (email_available e))"
  by (simp add: field_requests_def absent_required_def)

lemma required_requests: "field_requests [Required m] v = []"
  by (simp add: field_requests_def absent_required_def)

lemma validate_requests_eq:
  "validate_requests v = (if email v = [] then [] else verdict_requests (email_available (email v)))"
  by (simp add: validate_requests_def registrationSchema_def email_requests required_requests)

lemma validate_form_eq:
  "validate_form api v =
     (if surname v = [] then [(Surname, SurnameRequired)] else [])
   @ (if name v = [] then [(Name, NameRequired)] else [])
   @ (case field_errors api [Required EmailRequired, EmailRule EmailFormat,
          Matches corporate_email EmailNotCorporate, Test EmailTaken email_available] (email v)
      of [] \<Rightarrow> [] | m # ms \<Rightarrow> [(Email, m)])
   @ (if programId v = [] then [(ProgramId, ProgramRequired)] else [])
   @ (if yearAdmission v = [] then [(YearAdmission, YearRequired)] else [])
   @ (if group v = [] then [(Group, GroupRequired)] else [])"
  by (simp add: validate_form_def registrationSchema_def required_errors)


lemma local_char_atext: "local_char c \<Longrightarrow> atext c"
  by (auto simp: local_char_def atext_def)

lemma at_not_atext: "\<not> atext CHR ''@''"
  by (simp add: atext_def alnum_def)

lemma host_labels: "list_all email_label (split_on CHR ''.'' ''edu.hse.ru'')"
  by (simp add: email_label_def alnum_def)

lemma corporate_imp_rEmail:
  assumes "corporate_email s"
  shows "rEmail s"
proof -
  from assms obtain l where l: "l \<noteq> []" "list_all local_char l" "s = l @ ''@edu.hse.ru''"
    using corporate_email_iff by blast
  from l(2) have all: "\<forall>c\<in>set l. atext c"
    by (simp add: list_all_iff local_char_atext)
  have t: "takeWhile atext s = l"
    using all l(3) at_not_atext by (simp add: takeWhile_append2)
  have d: "dropWhile atext s = ''@edu.hse.ru''"
    using all l(3) at_not_atext by (simp add: dropWhile_append2)
  show ?thesis
    unfolding rEmail_def t d using l(1) host_labels by simp
qed

lemma field_error_Email:
  "field_error api v Email =
     (if email v = [] then Some EmailRequired
      else if \<not> rEmail (email v) then Some EmailFormat
      else if \<not> corporate_email (email v) then Some EmailNotCorporate
      else if \<not> settle api (email_available (email v)) then Some EmailTaken
      else None)"
  by (simp add: field_error_def validate_form_eq email_errors)

lemma field_error_required:
  "field_error api v Surname = (if surname v = [] then Some SurnameRequired else None)"
  "field_error api v Name = (if name v = [] then Some NameRequired else None)"
  "field_error api v ProgramId = (if programId v = [] then Some ProgramRequired else None)"
  "field_error api v YearAdmission = (if yearAdmission v = [] then Some YearRequired else None)"
  "field_error api v Group = (if group v = [] then Some GroupRequired else None)"
  by (simp_all add: field_error_def validate_form_eq email_errors)

lemma field_error_Patronymic: "field_error api v Patronymic = None"
  by (simp add: field_error_def validate_form_eq email_errors)


lemma isSubmittable_iff:
  "isSubmittable api v \<longleftrightarrow>
     surname v \<noteq> [] \<and> name v \<noteq> [] \<and> email v \<noteq> [] \<and> programId v \<noteq> [] \<and>
     yearAdmission v \<noteq> [] \<and> group v \<noteq> [] \<and> corporate_email (email v) \<and>
     settle api (email_available (email v))"
  using corporate_imp_rEmail[of "email v"]
  by (auto simp: isSubmittable_def validate_form_eq email_errors)












text \<open>What the availability test sends and what it answers, case by case.\<close>

lemma check_email_url_cases:
  "check_email_url v =
     (if unpaired_surrogate v then Inl URIError
      else Inr (''/api/check-email?email='' @ percent_encode v))"
  by (simp add: check_email_url_def encodeURIComponent_def)

lemma email_available_requests:
  "verdict_requests (email_available v) =
     (if unpaired_surrogate v then [] else [''/api/check-email?email='' @ percent_encode v])"
  by (simp add: email_available_def check_email_url_cases)

lemma settle_email_available:
  "settle api (email_available v) \<longleftrightarrow>
     (\<exists>url. check_email_url v = Inr url \<and> api url = Resolved True)"
  by (cases "api (''/api/check-email?email='' @ percent_encode v)")
     (auto simp: email_available_def check_email_url_cases)

lemma no_ED_no_surrogate: "CHR 0xED \<notin> set v \<Longrightarrow> \<not> unpaired_surrogate v"
  by (induction v rule: unpaired_surrogate.induct) auto

lemma local_char_not_ED: "local_char c \<Longrightarrow> c \<noteq> CHR 0xED"
  by (auto simp: local_char_def alnum_def)

lemma corporate_no_surrogate:
  assumes "corporate_email s"
  shows "\<not> unpaired_surrogate s"
proof -
  from assms obtain l where l: "list_all local_char l" "s = l @ ''@edu.hse.ru''"
    using corporate_email_iff by blast
  from l(1) have "CHR 0xED \<notin> set l"
    using local_char_not_ED by (auto simp: list_all_iff)
  then have "CHR 0xED \<notin> set s" by (simp add: l(2))
  then show ?thesis by (rule no_ED_no_surrogate)
qed

lemma corporate_url:
  "corporate_email s \<Longrightarrow>
     check_email_url s = Inr (''/api/check-email?email='' @ percent_encode s)"
  by (simp add: check_email_url_cases corporate_no_surrogate)

lemma corporate_available:
  "corporate_email s \<Longrightarrow> settle available (email_available s)"
  by (simp add: settle_email_available corporate_url available_def)

lemma corporate_nonempty: "corporate_email s \<Longrightarrow> s \<noteq> []"
  by (auto simp: corporate_email_def)

section \<open>Facts about the sample inputs and the state machine\<close>

lemma ivanov_corporate: "corporate_email (email ivanov)"
  by (simp add: ivanov_def corporate_email_def local_char_def alnum_def)

lemma gmail_not_corporate: "\<not> corporate_email ''a@gmail.com''"
  by (simp add: corporate_email_def local_char_def alnum_def)

lemma gmail_url: "check_email_url ''a@gmail.com'' = Inr ''/api/check-email?email=a%40gmail.com''"
  by (simp add: check_email_url_def encodeURIComponent_def uriUnescaped_def alnum_def
      percent_def hex_digit_def)

lemma lone_surrogate_throws: "check_email_url loneSurrogate = Inl URIError"
  by (simp add: check_email_url_def encodeURIComponent_def loneSurrogate_def)

lemma run_events_simps:
  "run_events s [] = s"
  "run_events s (e # es) = run_events (step s e) es"
  by (simp_all add: run_events_def)

lemma settled_errors:
  "i < length (validating s) \<Longrightarrow>
     formErrors (step s (ValidationSettled i r)) = validate_form (\<lambda>url. r) (run_values (validating s ! i))"
  by (simp add: Let_def handleSubmit_call_def)

lemma settled_values: "formValues (step s (ValidationSettled i r)) = formValues s"
  by (simp add: Let_def handleSubmit_call_def)

text \<open>A press of the disabled button changes nothing.\<close>

lemma press_loading: "loading s \<Longrightarrow> step s PressSubmit = s"
  by simp

lemma presses_loading: "loading s \<Longrightarrow> run_events s (replicate n PressSubmit) = s"
  by (induction n) (simp_all add: run_events_simps)

section \<open>The claims\<close>

subsection \<open>The email pattern\<close>

text \<open>
  C4. A string passes the corporate pattern exactly if it is a non-empty local part of
  letters, digits and the characters \<^verbatim>\<open>._%+-\<close>, followed by \<^verbatim>\<open>@edu.hse.ru\<close> and
  nothing else. The email field is free of errors only for such a string, and the
  synchronous rules (required, format, pattern) all pass exactly for such a string: what
  is left is at most the answer of the availability test.
\<close>

theorem email_pattern_rule:
  "(corporate_email s \<longleftrightarrow>
      (\<exists>l. l \<noteq> [] \<and> (\<forall>c\<in>set l. alnum c \<or> c \<in> set ''._%+-'') \<and> s = l @ ''@edu.hse.ru''))
   \<and> (field_error api v Email = None \<longrightarrow> corporate_email (email v))
   \<and> ((field_error api v Email = None \<or> field_error api v Email = Some EmailTaken)
        \<longleftrightarrow> corporate_email (email v))"
proof -
  have "corporate_email s \<longleftrightarrow>
      (\<exists>l. l \<noteq> [] \<and> (\<forall>c\<in>set l. alnum c \<or> c \<in> set ''._%+-'') \<and> s = l @ ''@edu.hse.ru'')"
    unfolding corporate_email_iff list_all_iff local_char_def ..
  moreover have "field_error api v Email = None \<longrightarrow> corporate_email (email v)"
    by (simp add: field_error_Email split: if_splits)
  moreover have "(field_error api v Email = None \<or> field_error api v Email = Some EmailTaken)
        \<longleftrightarrow> corporate_email (email v)"
    using corporate_imp_rEmail[of "email v"]
    by (auto simp: field_error_Email corporate_email_def)
  ultimately show ?thesis by blast
qed

theorem email_pattern_rule_witness:
  "field_error available ivanov Email = None \<and> corporate_email (email ivanov)
   \<and> \<not> corporate_email ''a@gmail.com''
   \<and> field_error available (ivanov\<lparr>email := ''a@gmail.com''\<rparr>) Email = Some EmailNotCorporate"
proof -
  have a: "corporate_email (email ivanov)"
    by (simp add: ivanov_def corporate_email_def local_char_def alnum_def)
  have r: "rEmail ''a@gmail.com''"
    by (simp add: rEmail_def atext_def email_label_def alnum_def)
  have b: "\<not> corporate_email ''a@gmail.com''"
    by (simp add: corporate_email_def local_char_def alnum_def)
  have c: "field_error available ivanov Email = None"
    using a corporate_imp_rEmail[OF a] corporate_nonempty[OF a] corporate_available[OF a]
    by (simp add: field_error_Email)
  have d: "field_error available (ivanov\<lparr>email := ''a@gmail.com''\<rparr>) Email = Some EmailNotCorporate"
    using b r by (simp add: field_error_Email)
  show ?thesis
    using email_pattern_rule[of "email ivanov" available ivanov] a b c d by simp
qed

subsection \<open>Submittability\<close>




text \<open>
  C6. An empty value in any field other than \<^verbatim>\<open>patronymic\<close> gives that field an
  error and makes the form not submittable, whatever the server answers; the field
  \<^verbatim>\<open>patronymic\<close> never has an error, also when it is empty.
\<close>

theorem required_field_rule:
  "(f \<noteq> Patronymic \<and> field_value v f = [] \<longrightarrow>
      (\<exists>m. field_error api v f = Some m) \<and> \<not> isSubmittable api v)
   \<and> field_error api v Patronymic = None"
proof -
  have "(\<exists>m. field_error api v f = Some m) \<and> \<not> isSubmittable api v"
    if "f \<noteq> Patronymic" "field_value v f = []"
    using that
    by (cases f) (simp_all add: field_error_required field_error_Email isSubmittable_iff)
  then show ?thesis by (simp add: field_error_Patronymic)
qed

theorem required_field_rule_witness:
  "field_value (ivanov\<lparr>group := []\<rparr>) Group = []
   \<and> field_error available (ivanov\<lparr>group := []\<rparr>) Group = Some GroupRequired
   \<and> \<not> isSubmittable available (ivanov\<lparr>group := []\<rparr>)
   \<and> field_error available (ivanov\<lparr>group := []\<rparr>) Patronymic = None
   \<and> patronymic ivanov = [] \<and> field_error available ivanov Patronymic = None"
  using required_field_rule[of Group "ivanov\<lparr>group := []\<rparr>" available]
    required_field_rule[of Group ivanov available]
  by (simp add: field_error_required ivanov_def)

subsection \<open>The availability test\<close>

text \<open>
  C3. When the availability test fails, be it that its request throws (no connection,
  timeout, error status) or that the address of the request cannot be built, the test
  answers \<^verbatim>\<open>false\<close>, the email field has an error and the form is not submittable.
\<close>

theorem availability_fails_closed:
  "(check_email_url e = Inr url \<and> api url = Thrown \<longrightarrow> \<not> settle api (email_available e))
   \<and> (check_email_url e = Inl x \<longrightarrow> \<not> settle api (email_available e))
   \<and> (check_email_url (email v) = Inr url \<and> api url = Thrown \<longrightarrow>
        (\<exists>m. field_error api v Email = Some m) \<and> \<not> isSubmittable api v)
   \<and> (check_email_url (email v) = Inl x \<longrightarrow>
        (\<exists>m. field_error api v Email = Some m) \<and> \<not> isSubmittable api v)"
  by (auto simp: settle_email_available field_error_Email isSubmittable_iff)

theorem availability_fails_closed_witness:
  "check_email_url (email ivanov) = Inr ''/api/check-email?email=ivanov%40edu.hse.ru''
   \<and> unreachable ''/api/check-email?email=ivanov%40edu.hse.ru'' = Thrown
   \<and> \<not> settle unreachable (email_available (email ivanov))
   \<and> field_error unreachable ivanov Email = Some EmailTaken
   \<and> \<not> isSubmittable unreachable ivanov
   \<and> check_email_url loneSurrogate = Inl URIError
   \<and> \<not> settle available (email_available loneSurrogate)
   \<and> \<not> isSubmittable available (ivanov\<lparr>email := loneSurrogate\<rparr>)"
proof -
  have u: "check_email_url (email ivanov) = Inr ''/api/check-email?email=ivanov%40edu.hse.ru''"
    by (simp add: check_email_url_def encodeURIComponent_def ivanov_def uriUnescaped_def
        alnum_def percent_def hex_digit_def)
  have t: "unreachable ''/api/check-email?email=ivanov%40edu.hse.ru'' = Thrown"
    by (simp add: unreachable_def)
  have n: "\<not> settle unreachable (email_available (email ivanov))"
    by (simp add: settle_email_available unreachable_def)
  have "field_error unreachable ivanov Email = Some EmailTaken"
    using n ivanov_corporate corporate_imp_rEmail[OF ivanov_corporate]
      corporate_nonempty[OF ivanov_corporate]
    by (simp add: field_error_Email)
  then show ?thesis
    using u t lone_surrogate_throws
      availability_fails_closed[of "email ivanov"
        "''/api/check-email?email=ivanov%40edu.hse.ru''" unreachable URIError ivanov]
      availability_fails_closed[of loneSurrogate _ available URIError
        "ivanov\<lparr>email := loneSurrogate\<rparr>"]
    by simp
qed

text \<open>
  C7, as the code has it. A validation pass calls the availability test exactly when the
  email value is not empty, and the test sends its request unless the encoder throws on
  the value (a surrogate without its partner); whether the value matches the pattern plays
  no role. So every change of the email field to a non-empty text that can be encoded
  sends the request for that text.
\<close>

theorem async_check_dispatch:
  "validate_requests v =
     (if email v = [] \<or> unpaired_surrogate (email v) then []
      else [''/api/check-email?email='' @ percent_encode (email v)])
   \<and> validate_requests v =
     (case check_email_url (email v) of
        Inl x \<Rightarrow> []
      | Inr url \<Rightarrow> if email v = [] then [] else [url])
   \<and> sent (step s (ChangeText Email t))
       = sent s @ (if t = [] \<or> unpaired_surrogate t then []
                   else [GET (''/api/check-email?email='' @ percent_encode t)])"
  by (simp add: validate_requests_eq email_available_requests check_email_url_cases
      validateForm_def)

theorem async_check_dispatch_witness:
  "validate_requests (ivanov\<lparr>email := ''a@gmail.com''\<rparr>) = [''/api/check-email?email=a%40gmail.com'']
   \<and> validate_requests initialValues = []
   \<and> validate_requests (ivanov\<lparr>email := loneSurrogate\<rparr>) = []"
proof -
  have d: "validate_requests v =
     (case check_email_url (email v) of
        Inl x \<Rightarrow> []
      | Inr url \<Rightarrow> if email v = [] then [] else [url])" for v
    by (rule conjunct1[OF conjunct2[OF async_check_dispatch]])
  have a: "validate_requests (ivanov\<lparr>email := ''a@gmail.com''\<rparr>)
      = [''/api/check-email?email=a%40gmail.com'']"
    by (subst d) (simp add: gmail_url)
  have b: "validate_requests initialValues = []"
    by (subst d) (simp add: initialValues_def split: sum.splits)
  have c: "validate_requests (ivanov\<lparr>email := loneSurrogate\<rparr>) = []"
    by (subst d) (simp add: lone_surrogate_throws)
  from a b c show ?thesis by blast
qed

text \<open>
  The statement that a value failing the pattern never causes a request is false:
  \<^verbatim>\<open>a@gmail.com\<close> fails the pattern and the request for it is sent.
\<close>

theorem async_check_counterexample:
  "\<not> corporate_email ''a@gmail.com''
   \<and> validate_requests (ivanov\<lparr>email := ''a@gmail.com''\<rparr>) = [''/api/check-email?email=a%40gmail.com'']
   \<and> sent (step initialScreen (ChangeText Email ''a@gmail.com''))
       = [GET ''/api/check-email?email=a%40gmail.com'']"
  using gmail_not_corporate gmail_url
  by (simp add: validate_requests_eq email_available_def validateForm_def initialScreen_def
      initialValues_def)



subsection \<open>Overlapping validation passes\<close>

text \<open>
  C1, as the code has it. There is no sequence number: when a validation pass finishes,
  its errors replace the errors of the form, whichever pass it is. If the email is edited
  to \<open>a\<close> and then to \<open>b\<close>, and the pass started for \<open>a\<close> finishes after the
  pass started for \<open>b\<close>, the form holds the value \<open>b\<close> with the errors computed
  for \<open>a\<close>.
\<close>

theorem stale_check_applied:
  "(i < length (validating s) \<longrightarrow>
      formErrors (step s (ValidationSettled i r))
        = validate_form (\<lambda>url. r) (run_values (validating s ! i)))
   \<and> formErrors (run_events s
        [ChangeText Email a, ChangeText Email b,
         ValidationSettled (Suc (length (validating s))) rb,
         ValidationSettled (length (validating s)) ra])
        = validate_form (\<lambda>url. ra) (setIn (formValues s) Email a)
   \<and> email (formValues (run_events s
        [ChangeText Email a, ChangeText Email b,
         ValidationSettled (Suc (length (validating s))) rb,
         ValidationSettled (length (validating s)) ra])) = b"
proof -
  define n where "n = length (validating s)"
  define s2 where "s2 = run_events s [ChangeText Email a, ChangeText Email b]"
  define s3 where "s3 = step s2 (ValidationSettled (Suc n) rb)"
  have v2: "validating s2 = validating s @
      [\<lparr>run_values = setIn (formValues s) Email a, run_trigger = FieldEvent\<rparr>,
       \<lparr>run_values = setIn (setIn (formValues s) Email a) Email b, run_trigger = FieldEvent\<rparr>]"
    by (simp add: s2_def run_events_simps validateForm_def)
  have f2: "email (formValues s2) = b"
    by (simp add: s2_def run_events_simps validateForm_def)
  have v3: "validating s3 = validating s @
      [\<lparr>run_values = setIn (formValues s) Email a, run_trigger = FieldEvent\<rparr>]"
    by (simp add: s3_def v2 n_def Let_def nth_append handleSubmit_call_def)
  have f3: "email (formValues s3) = b"
    unfolding s3_def by (simp only: settled_values f2)
  have e4: "formErrors (step s3 (ValidationSettled n ra))
      = validate_form (\<lambda>url. ra) (setIn (formValues s) Email a)"
    by (subst settled_errors) (simp_all add: v3 n_def nth_append)
  have f4: "email (formValues (step s3 (ValidationSettled n ra))) = b"
    by (simp only: settled_values f3)
  have unfold: "run_events s [ChangeText Email a, ChangeText Email b,
         ValidationSettled (Suc (length (validating s))) rb,
         ValidationSettled (length (validating s)) ra]
      = step s3 (ValidationSettled n ra)"
    by (simp only: s3_def s2_def n_def run_events_simps)
  show ?thesis
    unfolding unfold using e4 f4 settled_errors[of i s r] by blast
qed

theorem stale_check_applied_witness:
  "0 < length (validating pressedScreen)
   \<and> formErrors (step pressedScreen (ValidationSettled 0 (Resolved False))) = [(Email, EmailTaken)]
   \<and> formErrors (run_events pressedScreen
        [ChangeText Email ''a@edu.hse.ru'', ChangeText Email ''b@edu.hse.ru'',
         ValidationSettled 2 (Resolved True), ValidationSettled 1 (Resolved False)])
      = validate_form (\<lambda>url. Resolved False) (ivanov\<lparr>email := ''a@edu.hse.ru''\<rparr>)"
proof -
  have l: "length (validating pressedScreen) = 1"
    by code_simp
  have f: "formValues pressedScreen = ivanov"
    by code_simp
  have e: "validate_form (\<lambda>url. Resolved False) (run_values (validating pressedScreen ! 0))
      = [(Email, EmailTaken)]"
    by code_simp
  show ?thesis
    using stale_check_applied[where i = 0 and s = pressedScreen and r = "Resolved False"
        and a = "''a@edu.hse.ru''" and b = "''b@edu.hse.ru''" and rb = "Resolved True"
        and ra = "Resolved False"]
    by (simp add: l f e numeral_2_eq_2)
qed

text \<open>
  The statement that the result of the earlier check is never applied is false: the
  address \<open>b\<close> is free and the form shows no error once its check has come back, then
  the late answer for the taken address \<open>a\<close> marks the email as taken.
\<close>

theorem stale_check_counterexample:
  "email (formValues (run_events ivanovScreen
      [ChangeText Email ''a@edu.hse.ru'', ChangeText Email ''b@edu.hse.ru'',
       ValidationSettled 1 (Resolved True), ValidationSettled 0 (Resolved False)])) = ''b@edu.hse.ru''
   \<and> formErrors (run_events ivanovScreen
      [ChangeText Email ''a@edu.hse.ru'', ChangeText Email ''b@edu.hse.ru'',
       ValidationSettled 1 (Resolved True)]) = []
   \<and> formErrors (run_events ivanovScreen
      [ChangeText Email ''a@edu.hse.ru'', ChangeText Email ''b@edu.hse.ru'',
       ValidationSettled 1 (Resolved True), ValidationSettled 0 (Resolved False)]) = [(Email, EmailTaken)]"
  by code_simp

subsection \<open>Submission\<close>

text \<open>
  C2. The button is disabled by \<^verbatim>\<open>loading\<close>, and \<^verbatim>\<open>loading\<close> is set when
  \<^verbatim>\<open>handleSubmit\<close> starts, that is after the validation pass of the press has
  finished. Two presses made before the first pass finishes are both accepted: the second
  call of \<^verbatim>\<open>handleSubmit\<close> runs while \<^verbatim>\<open>loading\<close> already holds, and two
  registration requests are sent.
\<close>

theorem double_press_sends_two_requests:
  "\<not> loading (run_events ivanovScreen [PressSubmit, PressSubmit])
   \<and> loading (run_events ivanovScreen [PressSubmit, PressSubmit, ValidationSettled 0 (Resolved True)])
   \<and> filter is_POST (sent (run_events ivanovScreen
        [PressSubmit, PressSubmit, ValidationSettled 0 (Resolved True)])) = [POST ivanov]
   \<and> filter is_POST (sent (run_events ivanovScreen
        [PressSubmit, PressSubmit, ValidationSettled 0 (Resolved True),
         ValidationSettled 0 (Resolved True)])) = [POST ivanov, POST ivanov]"
  by code_simp

text \<open>
  C8. When the registration request fails, the alert shows the message of the error
  payload if there is one that JavaScript takes as true (a non-empty string), and the
  fallback text otherwise; \<^verbatim>\<open>loading\<close> is false afterwards, so the button accepts the
  next press and starts a new submission.
\<close>

theorem submit_failure:
  "alerts (handleSubmit (Rejected e) v s) = alerts s @
      [ErrorAlert (case server_message e of
                     None \<Rightarrow> serverErrorText
                   | Some m \<Rightarrow> if m = [] then serverErrorText else m)]
   \<and> (server_message e = Some m \<and> m \<noteq> [] \<longrightarrow>
        alerts (handleSubmit (Rejected e) v s) = alerts s @ [ErrorAlert m])
   \<and> (server_message e = None \<longrightarrow>
        alerts (handleSubmit (Rejected e) v s) = alerts s @ [ErrorAlert serverErrorText])
   \<and> \<not> loading (handleSubmit (Rejected e) v s)
   \<and> step (handleSubmit (Rejected e) v s) PressSubmit
       = validateForm SubmitAttempt (formValues s) (handleSubmit (Rejected e) v s)"
  by (simp add: or_else_def handleSubmit_def handleSubmit_call_def handleSubmit_resume_def)

theorem submit_failure_witness:
  "server_message duplicateEmail = Some ''Email already registered''
   \<and> alerts (handleSubmit (Rejected duplicateEmail) ivanov ivanovScreen)
     = [ErrorAlert ''Email already registered'']
   \<and> server_message networkError = None
   \<and> alerts (handleSubmit (Rejected networkError) ivanov ivanovScreen) = [ErrorAlert serverErrorText]
   \<and> alerts (handleSubmit (Rejected emptyMessage) ivanov ivanovScreen) = [ErrorAlert serverErrorText]
   \<and> \<not> loading (handleSubmit (Rejected networkError) ivanov ivanovScreen)"
  using submit_failure[of duplicateEmail ivanov ivanovScreen "''Email already registered''"]
    submit_failure[of networkError ivanov ivanovScreen]
    submit_failure[of emptyMessage ivanov ivanovScreen]
  by (simp add: duplicateEmail_def networkError_def emptyMessage_def server_message_def
      ivanovScreen_def initialScreen_def)

text \<open>
  C9. \<^verbatim>\<open>handleSubmit\<close> sets \<^verbatim>\<open>loading\<close> when it starts and leaves one request
  in flight; when that request settles, with an acknowledgement, an error of the server or
  a failure of the transport, \<^verbatim>\<open>loading\<close> is false.
\<close>

theorem loading_always_reset:
  "loading (handleSubmit_call v s)
   \<and> 0 < posting (handleSubmit_call v s)
   \<and> \<not> loading (handleSubmit_resume r s)
   \<and> \<not> loading (handleSubmit r v s)
   \<and> (0 < posting s \<longrightarrow> \<not> loading (step s (PostSettled r)))"
  by (cases r) (simp_all add: handleSubmit_def handleSubmit_call_def handleSubmit_resume_def)

theorem loading_always_reset_witness:
  "0 < posting (handleSubmit_call ivanov ivanovScreen)
   \<and> \<not> loading (step (handleSubmit_call ivanov ivanovScreen) (PostSettled Ack))
   \<and> \<not> loading (step (handleSubmit_call ivanov ivanovScreen) (PostSettled (Rejected duplicateEmail)))
   \<and> \<not> loading (step (handleSubmit_call ivanov ivanovScreen) (PostSettled (Rejected networkError)))"
  using loading_always_reset[of ivanov ivanovScreen Ack]
    loading_always_reset[of ivanov "handleSubmit_call ivanov ivanovScreen" Ack]
    loading_always_reset[of ivanov "handleSubmit_call ivanov ivanovScreen" "Rejected duplicateEmail"]
    loading_always_reset[of ivanov "handleSubmit_call ivanov ivanovScreen" "Rejected networkError"]
  by blast

end
